theory Spec2Isabelle
  imports Complex_Main
begin

section \<open>Data model of \<^verbatim>\<open>main.go\<close>\<close>

text \<open>
  The program is a client of a document database. Its own data are three structs, three
  string constants and one literal list of five records. A Go \<^verbatim>\<open>float64\<close> field is
  modelled as a \<^typ>\<open>real\<close> holding the decimal literal of the source: the program
  never computes with coordinates or distances, it only hands them to the driver and
  prints what comes back. A pointer to a struct is an \<^typ>\<open>'a option\<close>, \<^verbatim>\<open>nil\<close>
  being \<^term>\<open>None\<close>.
\<close>

record Point =
  Lon :: real
  Lat :: real

record Record =
  Name :: string
  GeoSpatial :: Point

record RecordWithDistance =
  Dist :: real
  Doc :: "Record option"

definition DBName :: string where
  "DBName = ''test''"

definition tableName :: string where
  "tableName = ''geospatial''"

definition indexName :: string where
  "indexName = ''area''"

definition records :: "Record list" where
  "records =
    [\<lparr>Name = ''first'',
      GeoSpatial = \<lparr>Lon = - 122.423246, Lat = 37.77929790366427\<rparr>\<rparr>,
     \<lparr>Name = ''second'',
      GeoSpatial = \<lparr>Lon = - 122.42326814543915, Lat = 37.77929963483801\<rparr>\<rparr>,
     \<lparr>Name = ''third'',
      GeoSpatial = \<lparr>Lon = - 122.4232894398445, Lat = 37.779304761831504\<rparr>\<rparr>,
     \<lparr>Name = ''fourth'',
      GeoSpatial = \<lparr>Lon = - 122.423246, Lat = 37.779478096334365\<rparr>\<rparr>,
     \<lparr>Name = ''fifth'',
      GeoSpatial = \<lparr>Lon = - 124.423246, Lat = 37.779478096334365\<rparr>\<rparr>]"

section \<open>Queries as the program builds them\<close>

text \<open>
  The program never talks to the database directly: it builds a query term with the
  driver's combinators and hands it to the driver. The datatype below has one
  constructor per combinator the source uses. \<^verbatim>\<open>r.Table(name)\<close> is the package-level
  function (the table is looked up in the session's default database),
  \<^verbatim>\<open>r.DB(db).Table(name)\<close> is the method on a database term. The Go closure passed to
  \<^verbatim>\<open>Do\<close> is its body, with \<open>Var\<close> standing for the closure's argument; \<open>Row\<close> is
  \<^verbatim>\<open>r.Row\<close>.
\<close>

record IndexCreateOpts =
  Geo :: bool

record GetNearestOpts =
  Index :: string
  MaxDist :: real
  MaxResults :: int
  Unit :: string

datatype Term =
    DB string
  | TableDrop Term string
  | TableCreate Term string
  | Table string
  | DB_Table Term string
  | IndexCreate Term string IndexCreateOpts
  | Insert Term Record
  | GetNearest Term Point GetNearestOpts
  | Do Term Term
  | Var
  | Row
  | Field Term string
  | Eq Term Term
  | Str string
  | Filter Term Term

section \<open>The driver and the observable world\<close>

text \<open>
  An \<open>error\<close> is a Go error value; \<open>Error\<close> is its message. The driver (package
  \<^verbatim>\<open>gorethink\<close>) and the server behind it are not part of the repository, so every
  function of the program takes them as a parameter: a record of the driver entry points
  the source calls, each a function of the state \<open>'s\<close> of everything outside the
  process. \<open>Connect\<close>, \<open>Exec\<close> and \<open>RunWrite\<close> answer with an optional error (the
  write response of \<open>RunWrite\<close> is discarded by the source), \<open>Run\<close> with an error or a
  cursor \<open>'c\<close>. \<^verbatim>\<open>res.All(&rows)\<close> writes through the pointer it is given and returns
  an error, so \<open>All\<close> answers with both the slice it left in \<open>rows\<close> and the optional
  error; there is one \<open>All\<close> per element type the source decodes into.
\<close>

datatype error = Err string

fun Error :: "error \<Rightarrow> string" where
  "Error (Err msg) = msg"

record ('s, 'c) driver =
  Connect :: "string \<Rightarrow> 's \<Rightarrow> error option \<times> 's"
  Exec :: "Term \<Rightarrow> 's \<Rightarrow> error option \<times> 's"
  RunWrite :: "Term \<Rightarrow> 's \<Rightarrow> error option \<times> 's"
  Run :: "Term \<Rightarrow> 's \<Rightarrow> (error + 'c) \<times> 's"
  All_RecordWithDistance ::
    "'c \<Rightarrow> 's \<Rightarrow> (RecordWithDistance option list \<times> error option) \<times> 's"
  All_Record :: "'c \<Rightarrow> 's \<Rightarrow> (Record option list \<times> error option) \<times> 's"

text \<open>
  What the process does that can be seen from outside is kept as a trace: lines on
  standard output (\<^verbatim>\<open>fmt.Println\<close>), lines on the log (\<^verbatim>\<open>log.Println\<close>, without
  the time stamp), the address dialled, every query handed to the driver, and every
  sleep (in seconds). A run of \<open>main\<close> or \<open>createTable\<close> either returns or ends the
  process through \<^verbatim>\<open>log.Fatalln\<close>, which logs and exits with status 1.
\<close>

datatype event =
    Stdout string
  | Logged string
  | Dialed string
  | Sent Term
  | Slept nat

record 's world =
  server :: 's
  trace :: "event list"

datatype 's outcome = Exited "'s world" | Returned "'s world"

fun world_of :: "'s outcome \<Rightarrow> 's world" where
  "world_of (Exited w) = w"
| "world_of (Returned w) = w"

text \<open>
  \<open>Sprintln\<close> joins its operands with single spaces, as \<^verbatim>\<open>fmt.Sprintln\<close> does; the
  final newline is the end of the trace entry.
\<close>

fun Sprintln :: "string list \<Rightarrow> string" where
  "Sprintln [] = []"
| "Sprintln [a] = a"
| "Sprintln (a # b # rest) = a @ '' '' @ Sprintln (b # rest)"

definition fmt_Println :: "string \<Rightarrow> 's world \<Rightarrow> 's world" where
  "fmt_Println line w = w\<lparr>trace := trace w @ [Stdout line]\<rparr>"

definition log_Println :: "string \<Rightarrow> 's world \<Rightarrow> 's world" where
  "log_Println line w = w\<lparr>trace := trace w @ [Logged line]\<rparr>"

definition log_Fatalln :: "string \<Rightarrow> 's world \<Rightarrow> 's outcome" where
  "log_Fatalln line w = Exited (log_Println line w)"

definition time_Sleep :: "nat \<Rightarrow> 's world \<Rightarrow> 's world" where
  "time_Sleep seconds w = w\<lparr>trace := trace w @ [Slept seconds]\<rparr>"

section \<open>Result printer\<close>

text \<open>
  \<^verbatim>\<open>printStructAsJSON(v interface{})\<close> is called with \<^verbatim>\<open>*RecordWithDistance\<close> and
  with \<^verbatim>\<open>*Record\<close>; \<open>iface\<close> is the interface value with these two dynamic types.
  \<^verbatim>\<open>json.MarshalIndent\<close> belongs to the standard library and is a parameter: given the
  value, the prefix and the indent it answers with the bytes and an optional error. The
  source binds the error to \<^verbatim>\<open>_\<close> and logs \<^verbatim>\<open>string(b)\<close>.
\<close>

datatype iface =
    PRecordWithDistance "RecordWithDistance option"
  | PRecord "Record option"

type_synonym 'v marshaller = "'v \<Rightarrow> string \<Rightarrow> string \<Rightarrow> string \<times> error option"

definition printStructAsJSON :: "'v marshaller \<Rightarrow> 'v \<Rightarrow> 's world \<Rightarrow> 's world" where
  "printStructAsJSON MarshalIndent v w =
     (case MarshalIndent v '''' ''  '' of (b, _) \<Rightarrow> log_Println b w)"

fun printLoop :: "'v marshaller \<Rightarrow> 'v list \<Rightarrow> 's world \<Rightarrow> 's world" where
  "printLoop json [] w = w"
| "printLoop json (v # rest) w = printLoop json rest (printStructAsJSON json v w)"

section \<open>Calling the driver\<close>

text \<open>
  Each call of a driver entry point moves the outside state and leaves one entry in the
  trace: the address dialled or the query sent. Decoding a cursor sends no query.
\<close>

definition connect :: "('s, 'c) driver \<Rightarrow> string \<Rightarrow> 's world \<Rightarrow> error option \<times> 's world" where
  "connect d address w =
     (case Connect d address (server w) of
        (err, s) \<Rightarrow> (err, w\<lparr>server := s, trace := trace w @ [Dialed address]\<rparr>))"

definition exec :: "('s, 'c) driver \<Rightarrow> Term \<Rightarrow> 's world \<Rightarrow> error option \<times> 's world" where
  "exec d q w =
     (case Exec d q (server w) of
        (err, s) \<Rightarrow> (err, w\<lparr>server := s, trace := trace w @ [Sent q]\<rparr>))"

definition runWrite :: "('s, 'c) driver \<Rightarrow> Term \<Rightarrow> 's world \<Rightarrow> error option \<times> 's world" where
  "runWrite d q w =
     (case RunWrite d q (server w) of
        (err, s) \<Rightarrow> (err, w\<lparr>server := s, trace := trace w @ [Sent q]\<rparr>))"

definition run :: "('s, 'c) driver \<Rightarrow> Term \<Rightarrow> 's world \<Rightarrow> (error + 'c) \<times> 's world" where
  "run d q w =
     (case Run d q (server w) of
        (res, s) \<Rightarrow> (res, w\<lparr>server := s, trace := trace w @ [Sent q]\<rparr>))"

definition all_RecordWithDistance ::
  "('s, 'c) driver \<Rightarrow> 'c \<Rightarrow> 's world
     \<Rightarrow> (RecordWithDistance option list \<times> error option) \<times> 's world" where
  "all_RecordWithDistance d res w =
     (case All_RecordWithDistance d res (server w) of
        (out, s) \<Rightarrow> (out, w\<lparr>server := s\<rparr>))"

definition all_Record ::
  "('s, 'c) driver \<Rightarrow> 'c \<Rightarrow> 's world \<Rightarrow> (Record option list \<times> error option) \<times> 's world" where
  "all_Record d res w =
     (case All_Record d res (server w) of
        (out, s) \<Rightarrow> (out, w\<lparr>server := s\<rparr>))"

section \<open>Schema setup and record loader\<close>

text \<open>
  \<open>createTable\<close>: the value \<^verbatim>\<open>TableDrop(...).Exec(session)\<close> returns is not bound
  to anything; a failed \<^verbatim>\<open>TableCreate\<close> or \<^verbatim>\<open>IndexCreate\<close> ends the process.
\<close>

definition createTable :: "('s, 'c) driver \<Rightarrow> 's world \<Rightarrow> 's outcome" where
  "createTable d w0 =
     (let w1 = fmt_Println ''create table and index'' w0;
          w2 = snd (exec d (TableDrop (DB DBName) tableName) w1)
      in case exec d (TableCreate (DB DBName) tableName) w2 of
           (Some err, w3) \<Rightarrow> log_Fatalln (Sprintln [''Cannot create table: '', Error err]) w3
         | (None, w3) \<Rightarrow>
             (case exec d (IndexCreate (DB_Table (DB DBName) tableName) indexName
                             \<lparr>Geo = True\<rparr>) w3 of
                (Some err, w4) \<Rightarrow>
                  log_Fatalln (Sprintln [''Cannot create index: '', Error err]) w4
              | (None, w4) \<Rightarrow> Returned (fmt_Println '''' w4)))"

text \<open>The body of \<^verbatim>\<open>for _, record := range records\<close>, over any list of records.\<close>

fun insertLoop :: "('s, 'c) driver \<Rightarrow> Record list \<Rightarrow> 's world \<Rightarrow> 's world" where
  "insertLoop d [] w = w"
| "insertLoop d (rec # rest) w =
     (case runWrite d (Insert (DB_Table (DB DBName) tableName) rec) w of
        (Some err, w') \<Rightarrow>
          insertLoop d rest (log_Println (Sprintln [''Cannot create record: '', Error err]) w')
      | (None, w') \<Rightarrow> insertLoop d rest w')"

definition insertRecords :: "('s, 'c) driver \<Rightarrow> 's world \<Rightarrow> 's world" where
  "insertRecords d w =
     fmt_Println '''' (insertLoop d records (fmt_Println ''insert records'' w))"

section \<open>The three nearest-neighbour queries\<close>

text \<open>
  Each query function binds its query term to the local \<^verbatim>\<open>query\<close>; the three terms
  are the constants \<open>*_query\<close>. The part of each function up to the print loop (title,
  run, decode, logging of an error) is \<open>*_rows\<close>, which also yields the slice \<^verbatim>\<open>rows\<close>
  the loop then ranges over. \<^verbatim>\<open>rows\<close> starts as the nil slice and is written only by
  \<^verbatim>\<open>All\<close>.
\<close>

definition referencePoint :: Point where
  "referencePoint = \<lparr>Lon = - 122.4153346282659, Lat = 37.77874812639591\<rparr>"

definition getNearestWithDistances_query :: Term where
  "getNearestWithDistances_query =
     GetNearest (Table tableName) referencePoint
       \<lparr>Index = indexName, MaxDist = 250, MaxResults = 1024, Unit = ''mi''\<rparr>"

definition getNearest_query :: Term where
  "getNearest_query =
     Do (GetNearest (Table tableName) referencePoint
           \<lparr>Index = indexName, MaxDist = 100, MaxResults = 1024, Unit = ''mi''\<rparr>)
        (Field Var ''doc'')"

definition getNearestByName_query :: "string \<Rightarrow> Term" where
  "getNearestByName_query name =
     Filter
       (Do (GetNearest (Table tableName) referencePoint
              \<lparr>Index = indexName, MaxDist = 100, MaxResults = 1024, Unit = ''mi''\<rparr>)
           (Field Var ''doc''))
       (Eq (Field Row ''name'') (Str name))"

definition getNearestWithDistances_rows ::
  "('s, 'c) driver \<Rightarrow> 's world \<Rightarrow> RecordWithDistance option list \<times> 's world" where
  "getNearestWithDistances_rows d w0 =
     (let w1 = fmt_Println ''Get nearest records with distances'' w0
      in case run d getNearestWithDistances_query w1 of
           (Inl err, w2) \<Rightarrow> ([], log_Println (Error err) w2)
         | (Inr res, w2) \<Rightarrow>
             (case all_RecordWithDistance d res w2 of
                ((rows, Some err), w3) \<Rightarrow> (rows, log_Println (Error err) w3)
              | ((rows, None), w3) \<Rightarrow> (rows, w3)))"

definition getNearestWithDistances ::
  "('s, 'c) driver \<Rightarrow> iface marshaller \<Rightarrow> 's world \<Rightarrow> 's world" where
  "getNearestWithDistances d json w0 =
     (case getNearestWithDistances_rows d w0 of
        (rows, w) \<Rightarrow> fmt_Println '''' (printLoop json (map PRecordWithDistance rows) w))"

definition getNearest_rows ::
  "('s, 'c) driver \<Rightarrow> 's world \<Rightarrow> Record option list \<times> 's world" where
  "getNearest_rows d w0 =
     (let w1 = fmt_Println ''Get just the nearest records'' w0
      in case run d getNearest_query w1 of
           (Inl err, w2) \<Rightarrow> ([], log_Println (Error err) w2)
         | (Inr res, w2) \<Rightarrow>
             (case all_Record d res w2 of
                ((rows, Some err), w3) \<Rightarrow> (rows, log_Println (Error err) w3)
              | ((rows, None), w3) \<Rightarrow> (rows, w3)))"

definition getNearest :: "('s, 'c) driver \<Rightarrow> iface marshaller \<Rightarrow> 's world \<Rightarrow> 's world" where
  "getNearest d json w0 =
     (case getNearest_rows d w0 of
        (rows, w) \<Rightarrow> fmt_Println '''' (printLoop json (map PRecord rows) w))"

definition getNearestByName_rows ::
  "string \<Rightarrow> ('s, 'c) driver \<Rightarrow> 's world \<Rightarrow> Record option list \<times> 's world" where
  "getNearestByName_rows name d w0 =
     (let w1 = fmt_Println ''Chain some additional filters'' w0
      in case run d (getNearestByName_query name) w1 of
           (Inl err, w2) \<Rightarrow> ([], log_Println (Error err) w2)
         | (Inr res, w2) \<Rightarrow>
             (case all_Record d res w2 of
                ((rows, Some err), w3) \<Rightarrow> (rows, log_Println (Error err) w3)
              | ((rows, None), w3) \<Rightarrow> (rows, w3)))"

definition getNearestByName ::
  "string \<Rightarrow> ('s, 'c) driver \<Rightarrow> iface marshaller \<Rightarrow> 's world \<Rightarrow> 's world" where
  "getNearestByName name d json w0 =
     (case getNearestByName_rows name d w0 of
        (rows, w) \<Rightarrow> fmt_Println '''' (printLoop json (map PRecord rows) w))"

section \<open>The program\<close>

definition main :: "('s, 'c) driver \<Rightarrow> iface marshaller \<Rightarrow> 's world \<Rightarrow> 's outcome" where
  "main d json w0 =
     (case connect d ''127.0.0.1'' w0 of
        (Some err, w1) \<Rightarrow> log_Fatalln (Sprintln [''Cannot connect: '', Error err]) w1
      | (None, w1) \<Rightarrow>
          (case createTable d w1 of
             Exited w2 \<Rightarrow> Exited w2
           | Returned w2 \<Rightarrow>
               (let w3 = time_Sleep 1 w2;
                    w4 = insertRecords d w3;
                    w5 = time_Sleep 1 w4;
                    w6 = getNearestWithDistances d json w5;
                    w7 = time_Sleep 1 w6;
                    w8 = getNearest d json w7;
                    w9 = time_Sleep 1 w8
                in Returned (getNearestByName ''first'' d json w9))))"

section \<open>A driver that replays a script\<close>

text \<open>
  To run the program on concrete inputs, \<open>scripted\<close> is a driver whose outside state is
  the list of replies still to be given: each call of \<open>Connect\<close>, \<open>Exec\<close>, \<open>RunWrite\<close>
  or \<open>Run\<close> takes the next reply (\<open>Done\<close> once the script is used up). A \<open>Cursor\<close>
  reply makes \<open>Run\<close> succeed with a cursor that decodes to the given rows and then
  reports the given error, if any.
\<close>

datatype reply =
    Done
  | Fail error
  | Cursor "(real \<times> Record) list" "error option"

fun next_reply :: "reply list \<Rightarrow> reply \<times> reply list" where
  "next_reply [] = (Done, [])"
| "next_reply (r # rs) = (r, rs)"

fun reply_error :: "reply \<Rightarrow> error option" where
  "reply_error (Fail e) = Some e"
| "reply_error _ = None"

fun reply_cursor :: "reply \<Rightarrow> error + (real \<times> Record) list \<times> error option" where
  "reply_cursor (Fail e) = Inl e"
| "reply_cursor (Cursor found e) = Inr (found, e)"
| "reply_cursor Done = Inr ([], None)"

definition scripted :: "(reply list, (real \<times> Record) list \<times> error option) driver" where
  "scripted =
     \<lparr>Connect = (\<lambda>address s. (reply_error (fst (next_reply s)), snd (next_reply s))),
      Exec = (\<lambda>q s. (reply_error (fst (next_reply s)), snd (next_reply s))),
      RunWrite = (\<lambda>q s. (reply_error (fst (next_reply s)), snd (next_reply s))),
      Run = (\<lambda>q s. (reply_cursor (fst (next_reply s)), snd (next_reply s))),
      All_RecordWithDistance =
        (\<lambda>res s. ((map (\<lambda>(dst, doc). Some \<lparr>Dist = dst, Doc = Some doc\<rparr>) (fst res),
                    snd res), s)),
      All_Record = (\<lambda>res s. ((map (\<lambda>(dst, doc). Some doc) (fst res), snd res), s))\<rparr>"

text \<open>A marshaller for concrete runs: it prints the name of the record it is given.\<close>

fun show_name :: "iface marshaller" where
  "show_name (PRecord (Some r)) prefix indent = (Name r, None)"
| "show_name (PRecordWithDistance (Some row)) prefix indent =
     (case Doc row of Some r \<Rightarrow> (Name r, None) | None \<Rightarrow> (''null'', None))"
| "show_name _ prefix indent = (''null'', None)"

section \<open>Reading a trace\<close>

text \<open>The queries handed to the driver, and the lines written to the log, in order.\<close>

fun sent :: "event list \<Rightarrow> Term list" where
  "sent [] = []"
| "sent (Sent q # tr) = q # sent tr"
| "sent (_ # tr) = sent tr"

fun logged :: "event list \<Rightarrow> string list" where
  "logged [] = []"
| "logged (Logged line # tr) = line # logged tr"
| "logged (_ # tr) = logged tr"

text \<open>
  The inserts of a list of records that the driver answers with an error, in order, each
  with its error: the outside state is threaded through all the inserts, failed or not.
\<close>

fun insertFailures :: "('s, 'c) driver \<Rightarrow> Record list \<Rightarrow> 's \<Rightarrow> (Record \<times> error) list" where
  "insertFailures d [] s = []"
| "insertFailures d (rec # rest) s =
     (case RunWrite d (Insert (DB_Table (DB DBName) tableName) rec) s of
        (Some err, s') \<Rightarrow> (rec, err) # insertFailures d rest s'
      | (None, s') \<Rightarrow> insertFailures d rest s')"

section \<open>A reference store\<close>

text \<open>
  What the database does with a query is not in the repository. For the claims that
  speak of the store's state, \<open>store\<close> is a model of the one database the program uses:
  its tables in creation order, each with its secondary indexes and its documents (a
  generated identifier and the record), and the next identifier to hand out. The
  geospatial search itself (distances, the cut at the maximum distance and count, the
  order) stays a parameter \<open>nearest\<close>: given the reference point, the options and the
  records of the table, it yields the matches paired with their distances.
\<close>

record table =
  indexes :: "(string \<times> IndexCreateOpts) list"
  documents :: "(nat \<times> Record) list"

record store =
  tables :: "(string \<times> table) list"
  next_id :: nat

type_synonym nearest = "Point \<Rightarrow> GetNearestOpts \<Rightarrow> Record list \<Rightarrow> (real \<times> Record) list"

datatype found = Pairs "(real \<times> Record) list" | Docs "Record list"

definition update_table :: "string \<Rightarrow> (table \<Rightarrow> table) \<Rightarrow> store \<Rightarrow> store" where
  "update_table name f s =
     s\<lparr>tables := map (\<lambda>nt. if fst nt = name then (fst nt, f (snd nt)) else nt) (tables s)\<rparr>"

text \<open>
  Modelled from the spec: the store's table and index commands, which the driver sends
  to the server and the repository does not contain. Section 4.2 of the spec: the drop
  removes a pre-existing table of the name and fails when there is none ("absence on
  first run is expected"), the creation makes the table "fresh", the index creation adds
  an index on the designated field. A table or an index that already exists is not
  created again.
\<close>

fun store_Exec :: "Term \<Rightarrow> store \<Rightarrow> error option \<times> store" where
  "store_Exec (TableDrop database name) s =
     (case database of
        DB db \<Rightarrow>
          (if db = DBName \<and> map_of (tables s) name \<noteq> None
           then (None, s\<lparr>tables := filter (\<lambda>nt. fst nt \<noteq> name) (tables s)\<rparr>)
           else (Some (Err ''Table does not exist''), s))
      | _ \<Rightarrow> (Some (Err ''Not a database''), s))"
| "store_Exec (TableCreate database name) s =
     (case database of
        DB db \<Rightarrow>
          (if db = DBName \<and> map_of (tables s) name = None
           then (None, s\<lparr>tables := tables s @ [(name, \<lparr>indexes = [], documents = []\<rparr>)]\<rparr>)
           else (Some (Err ''Table already exists''), s))
      | _ \<Rightarrow> (Some (Err ''Not a database''), s))"
| "store_Exec (IndexCreate tbl index opts) s =
     (case tbl of
        DB_Table (DB db) name \<Rightarrow>
          (case map_of (tables s) name of
             None \<Rightarrow> (Some (Err ''Table does not exist''), s)
           | Some t \<Rightarrow>
               (if db = DBName \<and> map_of (indexes t) index = None
                then (None,
                      update_table name (\<lambda>t. t\<lparr>indexes := indexes t @ [(index, opts)]\<rparr>) s)
                else (Some (Err ''Index already exists''), s)))
      | _ \<Rightarrow> (Some (Err ''Not a table''), s))"
| "store_Exec q s = (Some (Err ''Not a table or index command''), s)"

text \<open>
  Modelled from the spec: the store's insert (section 3: "identity is assigned by the
  store on insert"; testable property 5: the loader is append-only).
\<close>

fun store_RunWrite :: "Term \<Rightarrow> store \<Rightarrow> error option \<times> store" where
  "store_RunWrite (Insert tbl rec) s =
     (case tbl of
        DB_Table (DB db) name \<Rightarrow>
          (if db = DBName \<and> map_of (tables s) name \<noteq> None
           then (None,
                 (update_table name (\<lambda>t. t\<lparr>documents := documents t @ [(next_id s, rec)]\<rparr>) s)
                   \<lparr>next_id := Suc (next_id s)\<rparr>)
           else (Some (Err ''Table does not exist''), s))
      | _ \<Rightarrow> (Some (Err ''Not a table''), s))"
| "store_RunWrite q s = (Some (Err ''Not a write''), s)"

text \<open>
  Modelled from the spec: the store's answer to the three read queries (section 4.4).
  The search needs the table and a geospatial index of the given name and yields the
  matches paired with their distances; \<^verbatim>\<open>Do\<close> with the closure \<^verbatim>\<open>doc.Field("doc")\<close>
  "unwraps the distance-pairing to return just the matched records"; \<^verbatim>\<open>Filter\<close> with
  \<^verbatim>\<open>r.Row.Field("name").Eq(name)\<close> is "a further equality filter on the record's name
  attribute". The attribute names are the struct tags of \<open>Record\<close> and
  \<open>RecordWithDistance\<close>.
\<close>

fun store_Run :: "nearest \<Rightarrow> store \<Rightarrow> Term \<Rightarrow> error + found" where
  "store_Run nearest s (GetNearest tbl p opts) =
     (case tbl of
        Table name \<Rightarrow>
          (case map_of (tables s) name of
             None \<Rightarrow> Inl (Err ''Table does not exist'')
           | Some t \<Rightarrow>
               (case map_of (indexes t) (Index opts) of
                  None \<Rightarrow> Inl (Err ''Index does not exist'')
                | Some index_opts \<Rightarrow>
                    (if Geo index_opts
                     then Inr (Pairs (nearest p opts (map snd (documents t))))
                     else Inl (Err ''Index is not geospatial''))))
      | _ \<Rightarrow> Inl (Err ''Not a table''))"
| "store_Run nearest s (Do q body) =
     (case body of
        Field Var attribute \<Rightarrow>
          (case store_Run nearest s q of
             Inl err \<Rightarrow> Inl err
           | Inr (Pairs pairs) \<Rightarrow>
               (if attribute = ''doc'' then Inr (Docs (map snd pairs))
                else Inl (Err ''Unsupported attribute''))
           | Inr (Docs docs) \<Rightarrow> Inl (Err ''Unsupported attribute''))
      | _ \<Rightarrow> Inl (Err ''Unsupported function''))"
| "store_Run nearest s (Filter q predicate) =
     (case predicate of
        Eq (Field Row attribute) (Str v) \<Rightarrow>
          (case store_Run nearest s q of
             Inl err \<Rightarrow> Inl err
           | Inr (Docs docs) \<Rightarrow>
               (if attribute = ''name'' then Inr (Docs (filter (\<lambda>r. Name r = v) docs))
                else Inl (Err ''Unsupported attribute''))
           | Inr (Pairs pairs) \<Rightarrow> Inl (Err ''Unsupported attribute''))
      | _ \<Rightarrow> Inl (Err ''Unsupported predicate''))"
| "store_Run nearest s q = Inl (Err ''Unsupported query'')"

text \<open>
  The driver in front of the reference store. Decoding gives one pointer per element;
  the program decodes pairs into \<open>RecordWithDistance\<close> and bare documents into
  \<open>Record\<close>, and the other two combinations are answered with an error.
\<close>

definition store_driver :: "nearest \<Rightarrow> (store, found) driver" where
  "store_driver nearest =
     \<lparr>Connect = (\<lambda>address s. (None, s)),
      Exec = store_Exec,
      RunWrite = store_RunWrite,
      Run = (\<lambda>q s. (store_Run nearest s q, s)),
      All_RecordWithDistance =
        (\<lambda>res s.
           (case res of
              Pairs pairs \<Rightarrow>
                (map (\<lambda>(dst, doc). Some \<lparr>Dist = dst, Doc = Some doc\<rparr>) pairs, None)
            | Docs docs \<Rightarrow> ([], Some (Err ''Cannot decode'')),
            s)),
      All_Record =
        (\<lambda>res s.
           (case res of
              Docs docs \<Rightarrow> (map Some docs, None)
            | Pairs pairs \<Rightarrow> ([], Some (Err ''Cannot decode'')),
            s))\<rparr>"


section \<open>Theorems\<close>

subsection \<open>What each step leaves in the world\<close>

lemma sent_append [simp]: "sent (xs @ ys) = sent xs @ sent ys"
  by (induction xs rule: sent.induct) simp_all

lemma logged_append [simp]: "logged (xs @ ys) = logged xs @ logged ys"
  by (induction xs rule: logged.induct) simp_all

lemma fmt_Println_eq: "fmt_Println line w = \<lparr>server = server w, trace = trace w @ [Stdout line]\<rparr>"
  by (simp add: fmt_Println_def)

lemma log_Println_eq: "log_Println line w = \<lparr>server = server w, trace = trace w @ [Logged line]\<rparr>"
  by (simp add: log_Println_def)

lemma time_Sleep_eq: "time_Sleep n w = \<lparr>server = server w, trace = trace w @ [Slept n]\<rparr>"
  by (simp add: time_Sleep_def)

lemma printLoop_eq:
  "printLoop json vs w =
     \<lparr>server = server w, trace = trace w @ map (\<lambda>v. Logged (fst (json v '''' ''  ''))) vs\<rparr>"
  by (induction vs arbitrary: w)
     (simp_all add: printStructAsJSON_def log_Println_def split: prod.splits)

lemma exec_eq:
  "exec d q w = (fst (Exec d q (server w)),
                 \<lparr>server = snd (Exec d q (server w)), trace = trace w @ [Sent q]\<rparr>)"
  by (simp add: exec_def split: prod.splits)

lemma runWrite_eq:
  "runWrite d q w = (fst (RunWrite d q (server w)),
                 \<lparr>server = snd (RunWrite d q (server w)), trace = trace w @ [Sent q]\<rparr>)"
  by (simp add: runWrite_def split: prod.splits)

lemma run_eq:
  "run d q w = (fst (Run d q (server w)),
                 \<lparr>server = snd (Run d q (server w)), trace = trace w @ [Sent q]\<rparr>)"
  by (simp add: run_def split: prod.splits)

lemma connect_eq:
  "connect d a w = (fst (Connect d a (server w)),
                 \<lparr>server = snd (Connect d a (server w)), trace = trace w @ [Dialed a]\<rparr>)"
  by (simp add: connect_def split: prod.splits)

lemma insertLoop_sent:
  "sent (trace (insertLoop d recs w)) =
     sent (trace w) @ map (Insert (DB_Table (DB DBName) tableName)) recs"
  by (induction recs arbitrary: w)
     (simp_all add: runWrite_eq log_Println_eq split: option.splits)

lemma insertLoop_logged:
  "logged (trace (insertLoop d recs w)) =
     logged (trace w) @
     map (\<lambda>(r, e). Sprintln [''Cannot create record: '', Error e])
       (insertFailures d recs (server w))"
  by (induction recs arbitrary: w)
     (simp_all add: runWrite_eq log_Println_eq split: option.splits prod.splits)

lemma insertLoop_server:
  "server (insertLoop d recs w) =
     foldl (\<lambda>s r. snd (RunWrite d (Insert (DB_Table (DB DBName) tableName) r) s)) (server w) recs"
  by (induction recs arbitrary: w)
     (simp_all add: runWrite_eq log_Println_eq split: option.splits prod.splits)

lemma createTable_eq:
  "createTable d w =
     (let s1 = snd (Exec d (TableDrop (DB DBName) tableName) (server w));
          r2 = Exec d (TableCreate (DB DBName) tableName) s1;
          r3 = Exec d (IndexCreate (DB_Table (DB DBName) tableName) indexName \<lparr>Geo = True\<rparr>)
                 (snd r2);
          tr = trace w @ [Stdout ''create table and index'',
                 Sent (TableDrop (DB DBName) tableName),
                 Sent (TableCreate (DB DBName) tableName)]
      in case fst r2 of
           Some err \<Rightarrow>
             Exited \<lparr>server = snd r2,
                     trace = tr @ [Logged (''Cannot create table:  '' @ Error err)]\<rparr>
         | None \<Rightarrow>
             (case fst r3 of
                Some err \<Rightarrow>
                  Exited \<lparr>server = snd r3,
                    trace = tr @ [Sent (IndexCreate (DB_Table (DB DBName) tableName) indexName
                                         \<lparr>Geo = True\<rparr>),
                                  Logged (''Cannot create index:  '' @ Error err)]\<rparr>
              | None \<Rightarrow>
                  Returned \<lparr>server = snd r3,
                    trace = tr @ [Sent (IndexCreate (DB_Table (DB DBName) tableName) indexName
                                         \<lparr>Geo = True\<rparr>),
                                  Stdout '''']\<rparr>))"
  by (simp add: createTable_def Let_def exec_eq fmt_Println_eq log_Fatalln_def log_Println_eq
        split: option.splits)

lemma getNearestWithDistances_eq:
  "getNearestWithDistances d json w =
     (let r = Run d getNearestWithDistances_query (server w);
          tr = trace w @ [Stdout ''Get nearest records with distances'',
                          Sent getNearestWithDistances_query]
      in case fst r of
           Inl err \<Rightarrow> \<lparr>server = snd r, trace = tr @ [Logged (Error err), Stdout '''']\<rparr>
         | Inr res \<Rightarrow>
             (let a = All_RecordWithDistance d res (snd r)
              in \<lparr>server = snd a,
                  trace = tr @
                    (case snd (fst a) of Some err \<Rightarrow> [Logged (Error err)] | None \<Rightarrow> []) @
                    map (\<lambda>row. Logged (fst (json (PRecordWithDistance row) '''' ''  '')))
                      (fst (fst a)) @
                    [Stdout '''']\<rparr>))"
  by (simp add: getNearestWithDistances_def getNearestWithDistances_rows_def Let_def run_eq
        all_RecordWithDistance_def fmt_Println_eq log_Println_eq printLoop_eq comp_def
        split: sum.splits prod.splits option.splits)

lemma getNearest_eq:
  "getNearest d json w =
     (let r = Run d getNearest_query (server w);
          tr = trace w @ [Stdout ''Get just the nearest records'', Sent getNearest_query]
      in case fst r of
           Inl err \<Rightarrow> \<lparr>server = snd r, trace = tr @ [Logged (Error err), Stdout '''']\<rparr>
         | Inr res \<Rightarrow>
             (let a = All_Record d res (snd r)
              in \<lparr>server = snd a,
                  trace = tr @
                    (case snd (fst a) of Some err \<Rightarrow> [Logged (Error err)] | None \<Rightarrow> []) @
                    map (\<lambda>row. Logged (fst (json (PRecord row) '''' ''  ''))) (fst (fst a)) @
                    [Stdout '''']\<rparr>))"
  by (simp add: getNearest_def getNearest_rows_def Let_def run_eq
        all_Record_def fmt_Println_eq log_Println_eq printLoop_eq comp_def
        split: sum.splits prod.splits option.splits)

lemma getNearestByName_eq:
  "getNearestByName name d json w =
     (let r = Run d (getNearestByName_query name) (server w);
          tr = trace w @ [Stdout ''Chain some additional filters'',
                          Sent (getNearestByName_query name)]
      in case fst r of
           Inl err \<Rightarrow> \<lparr>server = snd r, trace = tr @ [Logged (Error err), Stdout '''']\<rparr>
         | Inr res \<Rightarrow>
             (let a = All_Record d res (snd r)
              in \<lparr>server = snd a,
                  trace = tr @
                    (case snd (fst a) of Some err \<Rightarrow> [Logged (Error err)] | None \<Rightarrow> []) @
                    map (\<lambda>row. Logged (fst (json (PRecord row) '''' ''  ''))) (fst (fst a)) @
                    [Stdout '''']\<rparr>))"
  by (simp add: getNearestByName_def getNearestByName_rows_def Let_def run_eq
        all_Record_def fmt_Println_eq log_Println_eq printLoop_eq comp_def
        split: sum.splits prod.splits option.splits)

lemma sent_Logged_map [simp]: "sent (map (\<lambda>x. Logged (f x)) xs) = []"
  by (induction xs) simp_all

lemma getNearestWithDistances_sent:
  "sent (trace (getNearestWithDistances d json w)) =
     sent (trace w) @ [getNearestWithDistances_query]"
  by (simp add: getNearestWithDistances_eq Let_def split: sum.splits option.splits)

lemma getNearest_sent:
  "sent (trace (getNearest d json w)) = sent (trace w) @ [getNearest_query]"
  by (simp add: getNearest_eq Let_def split: sum.splits option.splits)

lemma getNearestByName_sent:
  "sent (trace (getNearestByName name d json w)) =
     sent (trace w) @ [getNearestByName_query name]"
  by (simp add: getNearestByName_eq Let_def split: sum.splits option.splits)

lemma insertRecords_sent:
  "sent (trace (insertRecords d w)) =
     sent (trace w) @ map (Insert (DB_Table (DB DBName) tableName)) records"
  by (simp add: insertRecords_def fmt_Println_eq insertLoop_sent)

lemma main_eq:
  "main d json w =
     (let r1 = Connect d ''127.0.0.1'' (server w);
          w1 = \<lparr>server = snd r1, trace = trace w @ [Dialed ''127.0.0.1'']\<rparr>
      in case fst r1 of
           Some err \<Rightarrow>
             Exited \<lparr>server = snd r1,
                     trace = trace w @ [Dialed ''127.0.0.1'',
                                        Logged (''Cannot connect:  '' @ Error err)]\<rparr>
         | None \<Rightarrow>
             (case createTable d w1 of
                Exited w2 \<Rightarrow> Exited w2
              | Returned w2 \<Rightarrow>
                  Returned
                    (getNearestByName ''first'' d json
                      (time_Sleep 1 (getNearest d json
                        (time_Sleep 1 (getNearestWithDistances d json
                          (time_Sleep 1 (insertRecords d (time_Sleep 1 w2)))))))))) "
  by (simp add: main_def connect_eq Let_def log_Fatalln_def log_Println_eq
        split: option.splits outcome.splits)

subsection \<open>Schema setup on the reference store\<close>

lemma filter_absent: "map_of xs k = None \<Longrightarrow> filter (\<lambda>nt. fst nt \<noteq> k) xs = xs"
  by (induction xs) (auto split: if_splits)

lemma map_of_filter_other: "map_of (filter (\<lambda>nt. fst nt \<noteq> k) xs) k = None"
  by (induction xs) auto

lemma map_filter_other:
  "map (\<lambda>nt. if fst nt = k then g nt else nt) (filter (\<lambda>nt. fst nt \<noteq> k) xs) =
     filter (\<lambda>nt. fst nt \<noteq> k) xs"
  by (induction xs) auto

lemma filter_same_other: "filter (\<lambda>nt. fst nt = k) (filter (\<lambda>nt. fst nt \<noteq> k) xs) = []"
  by (induction xs) auto

lemma map_of_fresh: "map_of (filter (\<lambda>nt. fst nt \<noteq> k) xs @ [(k, v)]) k = Some v"
  by (simp add: map_add_def map_of_filter_other)

lemma store_create_after_drop:
  "store_Exec (TableCreate (DB DBName) name) (snd (store_Exec (TableDrop (DB DBName) name) s)) =
     (None, s\<lparr>tables := filter (\<lambda>nt. fst nt \<noteq> name) (tables s) @
                            [(name, \<lparr>indexes = [], documents = []\<rparr>)]\<rparr>)"
  by (cases "map_of (tables s) name") (simp_all add: filter_absent map_of_filter_other)

lemma store_index_on_fresh:
  "store_Exec (IndexCreate (DB_Table (DB DBName) name) index opts)
     (s\<lparr>tables := filter (\<lambda>nt. fst nt \<noteq> name) (tables s) @
                     [(name, \<lparr>indexes = [], documents = []\<rparr>)]\<rparr>) =
     (None, s\<lparr>tables := filter (\<lambda>nt. fst nt \<noteq> name) (tables s) @
                            [(name, \<lparr>indexes = [(index, opts)], documents = []\<rparr>)]\<rparr>)"
  by (simp add: map_of_fresh update_table_def map_filter_other del: map_of_append)

lemma store_createTable:
  "createTable (store_driver nearest) \<lparr>server = s, trace = tr\<rparr> =
     Returned
       \<lparr>server = s\<lparr>tables := filter (\<lambda>nt. fst nt \<noteq> tableName) (tables s) @
                      [(tableName, \<lparr>indexes = [(indexName, \<lparr>Geo = True\<rparr>)], documents = []\<rparr>)]\<rparr>,
        trace = tr @ [Stdout ''create table and index'',
                      Sent (TableDrop (DB DBName) tableName),
                      Sent (TableCreate (DB DBName) tableName),
                      Sent (IndexCreate (DB_Table (DB DBName) tableName) indexName
                              \<lparr>Geo = True\<rparr>),
                      Stdout '''']\<rparr>"
  by (simp add: createTable_eq Let_def store_driver_def store_create_after_drop
        store_index_on_fresh del: store_Exec.simps)

subsection \<open>The filtered query against the bare-record query\<close>

lemma logged_Logged_map [simp]: "logged (map (\<lambda>x. Logged (f x)) xs) = map f xs"
  by (induction xs) simp_all






subsection \<open>The claims\<close>

text \<open>
  C10. The result printer drops the marshalling error: for every marshaller and every
  value, serialisable or not, \<open>printStructAsJSON\<close> appends exactly one log line to the
  trace, namely the bytes the marshaller produced, leaves everything else as it was, and
  its result is the same whatever error the marshaller reported.
\<close>

theorem printStructAsJSON_ignores_error:
  "printStructAsJSON m v w =
     w\<lparr>trace := trace w @ [Logged (fst (m v '''' ''  ''))]\<rparr>
   \<and> length (trace (printStructAsJSON m v w)) = Suc (length (trace w))
   \<and> server (printStructAsJSON m v w) = server w
   \<and> printStructAsJSON (\<lambda>x p i. (fst (m x p i), e)) v w = printStructAsJSON m v w"
  by (simp add: printStructAsJSON_def log_Println_def split: prod.splits)

text \<open>
  C6. The record loader hands one insert per record of the seed list to the driver, in
  list order (first, second, third, fourth, fifth), whatever the driver answers: a failed
  insert is not retried and does not keep the later records from being attempted. Its log
  lines are exactly one line per failed insert, carrying that insert's error, and the
  outside state is the one reached by running all five inserts in order.
\<close>

theorem insertRecords_attempts_all:
  "sent (trace (insertRecords d w)) =
     sent (trace w) @ map (Insert (DB_Table (DB DBName) tableName)) records
   \<and> logged (trace (insertRecords d w)) =
     logged (trace w) @
     map (\<lambda>(r, e). Sprintln [''Cannot create record: '', Error e])
       (insertFailures d records (server w))
   \<and> server (insertRecords d w) =
     foldl (\<lambda>s r. snd (RunWrite d (Insert (DB_Table (DB DBName) tableName) r) s))
       (server w) records
   \<and> map Name records = [''first'', ''second'', ''third'', ''fourth'', ''fifth'']"
  by (simp add: insertRecords_def fmt_Println_eq insertLoop_sent insertLoop_logged
        insertLoop_server) (simp add: records_def)

text \<open>
  A run of the loader in which the second insert fails: the failure is logged and the
  remaining three records are inserted after it.
\<close>

lemma insertRecords_second_insert_fails:
  "insertRecords scripted \<lparr>server = [Done, Fail (Err ''duplicate'')], trace = []\<rparr> =
     \<lparr>server = [],
      trace = [Stdout ''insert records'',
               Sent (Insert (DB_Table (DB DBName) tableName) (records ! 0)),
               Sent (Insert (DB_Table (DB DBName) tableName) (records ! 1)),
               Logged ''Cannot create record:  duplicate'',
               Sent (Insert (DB_Table (DB DBName) tableName) (records ! 2)),
               Sent (Insert (DB_Table (DB DBName) tableName) (records ! 3)),
               Sent (Insert (DB_Table (DB DBName) tableName) (records ! 4)),
               Stdout '''']\<rparr>"
  by (simp add: insertRecords_def records_def runWrite_eq scripted_def fmt_Println_eq
        log_Println_eq)

text \<open>
  C5, as the code has it. The value returned by the table drop is never looked at: for
  every driver, \<open>createTable\<close> sends the table creation right after the drop, its log
  lines are at most the one line of a failed creation or a failed index creation (nothing
  is logged for the drop), it ends the process only when the creation or the index
  creation fails, and replacing the drop's error answer by any other answer \<open>e\<close> changes
  nothing.
\<close>

theorem createTable_discards_drop_error:
  fixes d :: "('s, 'c) driver" and w :: "'s world" and e :: "error option"
  defines "s1 \<equiv> snd (Exec d (TableDrop (DB DBName) tableName) (server w))"
  defines "r2 \<equiv> Exec d (TableCreate (DB DBName) tableName) s1"
  defines "r3 \<equiv> Exec d (IndexCreate (DB_Table (DB DBName) tableName) indexName
                          \<lparr>Geo = True\<rparr>) (snd r2)"
  shows
  "(\<exists>rest. trace (world_of (createTable d w)) =
      trace w @ [Stdout ''create table and index'', Sent (TableDrop (DB DBName) tableName),
                 Sent (TableCreate (DB DBName) tableName)] @ rest)
   \<and> logged (trace (world_of (createTable d w))) =
       logged (trace w) @
       (case fst r2 of
          Some err \<Rightarrow> [''Cannot create table:  '' @ Error err]
        | None \<Rightarrow>
            (case fst r3 of
               Some err \<Rightarrow> [''Cannot create index:  '' @ Error err]
             | None \<Rightarrow> []))
   \<and> ((\<exists>w'. createTable d w = Exited w') =
        ((\<exists>err. fst r2 = Some err) \<or> (fst r2 = None \<and> (\<exists>err. fst r3 = Some err))))
   \<and> createTable
        (d\<lparr>Exec := \<lambda>q s. (if q = TableDrop (DB DBName) tableName then e
                            else fst (Exec d q s), snd (Exec d q s))\<rparr>) w =
      createTable d w"
  unfolding s1_def r2_def r3_def
  by (simp add: createTable_eq Let_def split: option.splits)

text \<open>
  C5 as stated fails: when the drop fails, nothing is logged. Here the drop is answered
  with an error and every other command succeeds; the log stays empty.
\<close>

theorem createTable_drop_failure_not_logged:
  "fst (Exec scripted (TableDrop (DB DBName) tableName) [Fail (Err ''Table does not exist'')]) =
     Some (Err ''Table does not exist'')
   \<and> createTable scripted \<lparr>server = [Fail (Err ''Table does not exist'')], trace = []\<rparr> =
     Returned \<lparr>server = [],
       trace = [Stdout ''create table and index'',
                Sent (TableDrop (DB DBName) tableName),
                Sent (TableCreate (DB DBName) tableName),
                Sent (IndexCreate (DB_Table (DB DBName) tableName) indexName \<lparr>Geo = True\<rparr>),
                Stdout '''']\<rparr>
   \<and> logged (trace (world_of (createTable scripted
         \<lparr>server = [Fail (Err ''Table does not exist'')], trace = []\<rparr>))) = []"
  by (simp add: createTable_eq Let_def scripted_def)

text \<open>
  C4. The process ends early exactly on a failed connection, a failed table creation or a
  failed index creation: in each case the trace ends with the logged cause and nothing
  follows it. When all three succeed, \<open>main\<close> returns, whatever the drop, the inserts
  and the queries answer, and every later request has been handed to the driver.
\<close>

theorem main_exits_exactly_on_fatal:
  fixes d :: "('s, 'c) driver" and w :: "'s world" and json :: "iface marshaller"
  defines "r1 \<equiv> Connect d ''127.0.0.1'' (server w)"
  defines "s2 \<equiv> snd (Exec d (TableDrop (DB DBName) tableName) (snd r1))"
  defines "r3 \<equiv> Exec d (TableCreate (DB DBName) tableName) s2"
  defines "r4 \<equiv> Exec d (IndexCreate (DB_Table (DB DBName) tableName) indexName
                          \<lparr>Geo = True\<rparr>) (snd r3)"
  shows
  "(\<forall>err. fst r1 = Some err \<longrightarrow>
      main d json w =
        Exited \<lparr>server = snd r1,
                trace = trace w @ [Dialed ''127.0.0.1'',
                                   Logged (''Cannot connect:  '' @ Error err)]\<rparr>)
   \<and> (\<forall>err. fst r1 = None \<and> fst r3 = Some err \<longrightarrow>
      main d json w =
        Exited \<lparr>server = snd r3,
                trace = trace w @ [Dialed ''127.0.0.1'', Stdout ''create table and index'',
                                   Sent (TableDrop (DB DBName) tableName),
                                   Sent (TableCreate (DB DBName) tableName),
                                   Logged (''Cannot create table:  '' @ Error err)]\<rparr>)
   \<and> (\<forall>err. fst r1 = None \<and> fst r3 = None \<and> fst r4 = Some err \<longrightarrow>
      main d json w =
        Exited \<lparr>server = snd r4,
                trace = trace w @ [Dialed ''127.0.0.1'', Stdout ''create table and index'',
                                   Sent (TableDrop (DB DBName) tableName),
                                   Sent (TableCreate (DB DBName) tableName),
                                   Sent (IndexCreate (DB_Table (DB DBName) tableName) indexName
                                          \<lparr>Geo = True\<rparr>),
                                   Logged (''Cannot create index:  '' @ Error err)]\<rparr>)
   \<and> (fst r1 = None \<and> fst r3 = None \<and> fst r4 = None \<longrightarrow>
      (\<exists>w'. main d json w = Returned w' \<and>
         sent (trace w') =
           sent (trace w) @
           [TableDrop (DB DBName) tableName, TableCreate (DB DBName) tableName,
            IndexCreate (DB_Table (DB DBName) tableName) indexName \<lparr>Geo = True\<rparr>] @
           map (Insert (DB_Table (DB DBName) tableName)) records @
           [getNearestWithDistances_query, getNearest_query, getNearestByName_query ''first'']))
   \<and> ((\<exists>w'. main d json w = Exited w') =
        ((\<exists>err. fst r1 = Some err)
         \<or> (fst r1 = None \<and> (\<exists>err. fst r3 = Some err))
         \<or> (fst r1 = None \<and> fst r3 = None \<and> (\<exists>err. fst r4 = Some err))))"
  unfolding r1_def s2_def r3_def r4_def
  by (simp add: main_eq createTable_eq Let_def getNearestByName_sent getNearest_sent
        getNearestWithDistances_sent insertRecords_sent time_Sleep_eq
        split: option.splits)

text \<open>
  Four runs of C4, on the scripted driver: the connection is refused; the table creation
  is denied (after a failed drop); the index creation is denied; and a run in which the
  drop, an insert, the first query and the decoding of the second query fail, which
  returns with every request issued.
\<close>

theorem main_exits_exactly_on_fatal_witness:
  "main scripted show_name \<lparr>server = [Fail (Err ''refused'')], trace = []\<rparr> =
     Exited \<lparr>server = [],
       trace = [Dialed ''127.0.0.1'', Logged ''Cannot connect:  refused'']\<rparr>
   \<and> main scripted show_name
       \<lparr>server = [Done, Fail (Err ''no table''), Fail (Err ''denied'')], trace = []\<rparr> =
     Exited \<lparr>server = [],
       trace = [Dialed ''127.0.0.1'', Stdout ''create table and index'',
                Sent (TableDrop (DB DBName) tableName),
                Sent (TableCreate (DB DBName) tableName),
                Logged ''Cannot create table:  denied'']\<rparr>
   \<and> main scripted show_name
       \<lparr>server = [Done, Done, Done, Fail (Err ''denied''), Done], trace = []\<rparr> =
     Exited \<lparr>server = [Done],
       trace = [Dialed ''127.0.0.1'', Stdout ''create table and index'',
                Sent (TableDrop (DB DBName) tableName),
                Sent (TableCreate (DB DBName) tableName),
                Sent (IndexCreate (DB_Table (DB DBName) tableName) indexName \<lparr>Geo = True\<rparr>),
                Logged ''Cannot create index:  denied'']\<rparr>
   \<and> (\<exists>w'. main scripted show_name
         \<lparr>server = [Done, Fail (Err ''no table''), Done, Done,
                     Done, Fail (Err ''duplicate''), Done, Done, Done,
                     Fail (Err ''timeout''),
                     Cursor [(0.4347245659663054, hd records)] (Some (Err ''closed''))],
          trace = []\<rparr> = Returned w' \<and>
         sent (trace w') =
           [TableDrop (DB DBName) tableName, TableCreate (DB DBName) tableName,
            IndexCreate (DB_Table (DB DBName) tableName) indexName \<lparr>Geo = True\<rparr>] @
           map (Insert (DB_Table (DB DBName) tableName)) records @
           [getNearestWithDistances_query, getNearest_query, getNearestByName_query ''first''])"
  using
    main_exits_exactly_on_fatal [where d = scripted and json = show_name
      and w = "\<lparr>server = [Fail (Err ''refused'')], trace = []\<rparr>", THEN conjunct1]
    main_exits_exactly_on_fatal [where d = scripted and json = show_name
      and w = "\<lparr>server = [Done, Fail (Err ''no table''), Fail (Err ''denied'')], trace = []\<rparr>",
      THEN conjunct2, THEN conjunct1]
    main_exits_exactly_on_fatal [where d = scripted and json = show_name
      and w = "\<lparr>server = [Done, Done, Done, Fail (Err ''denied''), Done], trace = []\<rparr>",
      THEN conjunct2, THEN conjunct2, THEN conjunct1]
    main_exits_exactly_on_fatal [where d = scripted and json = show_name
      and w = "\<lparr>server = [Done, Fail (Err ''no table''), Done, Done,
                     Done, Fail (Err ''duplicate''), Done, Done, Done,
                     Fail (Err ''timeout''),
                     Cursor [(0.4347245659663054, hd records)] (Some (Err ''closed''))],
          trace = []\<rparr>",
      THEN conjunct2, THEN conjunct2, THEN conjunct2, THEN conjunct1]
  by (simp add: scripted_def)

text \<open>
  C8, as the code has it. For each of the three query functions and every driver: when
  the run of the query fails, the error is logged and no row is printed; when the decoding
  fails, the error is logged and one line is printed for every row the decoding left in
  \<^verbatim>\<open>rows\<close> (none when it left none). Either way the function returns, and in \<open>main\<close>,
  once the connection and the schema setup have succeeded, all three queries are issued
  and \<open>main\<close> returns, whatever any of them answers.
\<close>

theorem query_failure_is_contained:
  fixes d :: "('s, 'c) driver" and w :: "'s world" and json :: "iface marshaller"
  shows
  "(\<forall>err s. Run d getNearestWithDistances_query (server w) = (Inl err, s) \<longrightarrow>
      getNearestWithDistances d json w =
        \<lparr>server = s,
         trace = trace w @ [Stdout ''Get nearest records with distances'',
                            Sent getNearestWithDistances_query,
                            Logged (Error err), Stdout '''']\<rparr>)
   \<and> (\<forall>res s rows err s'.
        Run d getNearestWithDistances_query (server w) = (Inr res, s) \<and>
        All_RecordWithDistance d res s = ((rows, Some err), s') \<longrightarrow>
      getNearestWithDistances d json w =
        \<lparr>server = s',
         trace = trace w @ [Stdout ''Get nearest records with distances'',
                            Sent getNearestWithDistances_query, Logged (Error err)] @
                 map (\<lambda>row. Logged (fst (json (PRecordWithDistance row) '''' ''  ''))) rows @
                 [Stdout '''']\<rparr>)
   \<and> (\<forall>err s. Run d getNearest_query (server w) = (Inl err, s) \<longrightarrow>
      getNearest d json w =
        \<lparr>server = s,
         trace = trace w @ [Stdout ''Get just the nearest records'', Sent getNearest_query,
                            Logged (Error err), Stdout '''']\<rparr>)
   \<and> (\<forall>res s rows err s'.
        Run d getNearest_query (server w) = (Inr res, s) \<and>
        All_Record d res s = ((rows, Some err), s') \<longrightarrow>
      getNearest d json w =
        \<lparr>server = s',
         trace = trace w @ [Stdout ''Get just the nearest records'', Sent getNearest_query,
                            Logged (Error err)] @
                 map (\<lambda>row. Logged (fst (json (PRecord row) '''' ''  ''))) rows @
                 [Stdout '''']\<rparr>)
   \<and> (\<forall>err s. Run d (getNearestByName_query name) (server w) = (Inl err, s) \<longrightarrow>
      getNearestByName name d json w =
        \<lparr>server = s,
         trace = trace w @ [Stdout ''Chain some additional filters'',
                            Sent (getNearestByName_query name),
                            Logged (Error err), Stdout '''']\<rparr>)
   \<and> (\<forall>res s rows err s'.
        Run d (getNearestByName_query name) (server w) = (Inr res, s) \<and>
        All_Record d res s = ((rows, Some err), s') \<longrightarrow>
      getNearestByName name d json w =
        \<lparr>server = s',
         trace = trace w @ [Stdout ''Chain some additional filters'',
                            Sent (getNearestByName_query name), Logged (Error err)] @
                 map (\<lambda>row. Logged (fst (json (PRecord row) '''' ''  ''))) rows @
                 [Stdout '''']\<rparr>)
   \<and> (\<forall>w1 w2. connect d ''127.0.0.1'' w = (None, w1) \<and> createTable d w1 = Returned w2 \<longrightarrow>
        (\<exists>w'. main d json w = Returned w' \<and>
           sent (trace w') =
             sent (trace w2) @ map (Insert (DB_Table (DB DBName) tableName)) records @
             [getNearestWithDistances_query, getNearest_query,
              getNearestByName_query ''first'']))"
proof (intro conjI)
  show "\<forall>w1 w2. connect d ''127.0.0.1'' w = (None, w1) \<and> createTable d w1 = Returned w2 \<longrightarrow>
        (\<exists>w'. main d json w = Returned w' \<and>
           sent (trace w') =
             sent (trace w2) @ map (Insert (DB_Table (DB DBName) tableName)) records @
             [getNearestWithDistances_query, getNearest_query,
              getNearestByName_query ''first''])"
    by (simp add: main_def Let_def getNearestByName_sent getNearest_sent
          getNearestWithDistances_sent insertRecords_sent time_Sleep_eq)
qed (simp_all add: getNearestWithDistances_eq getNearest_eq getNearestByName_eq Let_def)

text \<open>
  Runs of C8 on the scripted driver: each query function with a failed run and with a
  failed decoding, and \<open>main\<close> with all three queries failing.
\<close>

theorem query_failure_is_contained_witness:
  "getNearestWithDistances scripted show_name
       \<lparr>server = [Fail (Err ''timeout'')], trace = []\<rparr> =
     \<lparr>server = [],
      trace = [Stdout ''Get nearest records with distances'',
               Sent getNearestWithDistances_query, Logged ''timeout'', Stdout '''']\<rparr>
   \<and> getNearestWithDistances scripted show_name
       \<lparr>server = [Cursor [(0.4347245659663054, hd records)] (Some (Err ''closed''))],
        trace = []\<rparr> =
     \<lparr>server = [],
      trace = [Stdout ''Get nearest records with distances'',
               Sent getNearestWithDistances_query, Logged ''closed'', Logged ''first'',
               Stdout '''']\<rparr>
   \<and> getNearest scripted show_name \<lparr>server = [Fail (Err ''timeout'')], trace = []\<rparr> =
     \<lparr>server = [],
      trace = [Stdout ''Get just the nearest records'', Sent getNearest_query,
               Logged ''timeout'', Stdout '''']\<rparr>
   \<and> getNearest scripted show_name
       \<lparr>server = [Cursor [(0.4347245659663054, hd records)] (Some (Err ''closed''))],
        trace = []\<rparr> =
     \<lparr>server = [],
      trace = [Stdout ''Get just the nearest records'', Sent getNearest_query,
               Logged ''closed'', Logged ''first'', Stdout '''']\<rparr>
   \<and> getNearestByName ''first'' scripted show_name
       \<lparr>server = [Fail (Err ''timeout'')], trace = []\<rparr> =
     \<lparr>server = [],
      trace = [Stdout ''Chain some additional filters'', Sent (getNearestByName_query ''first''),
               Logged ''timeout'', Stdout '''']\<rparr>
   \<and> getNearestByName ''first'' scripted show_name
       \<lparr>server = [Cursor [] (Some (Err ''closed''))], trace = []\<rparr> =
     \<lparr>server = [],
      trace = [Stdout ''Chain some additional filters'', Sent (getNearestByName_query ''first''),
               Logged ''closed'', Stdout '''']\<rparr>
   \<and> (\<exists>w'. main scripted show_name
         \<lparr>server = [Done, Done, Done, Done, Done, Done, Done, Done, Done,
                     Fail (Err ''timeout''),
                     Cursor [(0.4347245659663054, hd records)] (Some (Err ''closed'')),
                     Fail (Err ''timeout'')],
          trace = []\<rparr> = Returned w' \<and>
         sent (trace w') =
           [TableDrop (DB DBName) tableName, TableCreate (DB DBName) tableName,
            IndexCreate (DB_Table (DB DBName) tableName) indexName \<lparr>Geo = True\<rparr>] @
           map (Insert (DB_Table (DB DBName) tableName)) records @
           [getNearestWithDistances_query, getNearest_query, getNearestByName_query ''first''])"
  using
    query_failure_is_contained [where d = scripted and json = show_name
      and w = "\<lparr>server = [Fail (Err ''timeout'')], trace = []\<rparr>" and name = "''first''",
      THEN conjunct1]
    query_failure_is_contained [where d = scripted and json = show_name
      and w = "\<lparr>server = [Cursor [(0.4347245659663054, hd records)] (Some (Err ''closed''))],
               trace = []\<rparr>" and name = "''first''",
      THEN conjunct2, THEN conjunct1]
    query_failure_is_contained [where d = scripted and json = show_name
      and w = "\<lparr>server = [Fail (Err ''timeout'')], trace = []\<rparr>" and name = "''first''",
      THEN conjunct2, THEN conjunct2, THEN conjunct1]
    query_failure_is_contained [where d = scripted and json = show_name
      and w = "\<lparr>server = [Cursor [(0.4347245659663054, hd records)] (Some (Err ''closed''))],
               trace = []\<rparr>" and name = "''first''",
      THEN conjunct2, THEN conjunct2, THEN conjunct2, THEN conjunct1]
    query_failure_is_contained [where d = scripted and json = show_name
      and w = "\<lparr>server = [Fail (Err ''timeout'')], trace = []\<rparr>" and name = "''first''",
      THEN conjunct2, THEN conjunct2, THEN conjunct2, THEN conjunct2, THEN conjunct1]
    query_failure_is_contained [where d = scripted and json = show_name
      and w = "\<lparr>server = [Cursor [] (Some (Err ''closed''))], trace = []\<rparr>"
      and name = "''first''",
      THEN conjunct2, THEN conjunct2, THEN conjunct2, THEN conjunct2, THEN conjunct2,
      THEN conjunct1]
    query_failure_is_contained [where d = scripted and json = show_name
      and w = "\<lparr>server = [Done, Done, Done, Done, Done, Done, Done, Done, Done,
                     Fail (Err ''timeout''),
                     Cursor [(0.4347245659663054, hd records)] (Some (Err ''closed'')),
                     Fail (Err ''timeout'')],
          trace = []\<rparr>" and name = "''first''",
      THEN conjunct2, THEN conjunct2, THEN conjunct2, THEN conjunct2, THEN conjunct2,
      THEN conjunct2]
  by (simp add: scripted_def connect_eq createTable_eq Let_def records_def)

text \<open>
  C8 as stated fails: a failed decoding does not make the output empty. Here the cursor
  hands over one row and then reports an error; the error is logged and the row is
  printed all the same.
\<close>

theorem decode_failure_still_prints:
  "snd (fst (All_Record scripted
       ([(0.4347245659663054, hd records)], Some (Err ''connection closed'')) [])) =
     Some (Err ''connection closed'')
   \<and> fst (getNearest_rows scripted
       \<lparr>server = [Cursor [(0.4347245659663054, hd records)] (Some (Err ''connection closed''))],
        trace = []\<rparr>) = [Some (hd records)]
   \<and> getNearest scripted show_name
       \<lparr>server = [Cursor [(0.4347245659663054, hd records)] (Some (Err ''connection closed''))],
        trace = []\<rparr> =
     \<lparr>server = [],
      trace = [Stdout ''Get just the nearest records'', Sent getNearest_query,
               Logged ''connection closed'', Logged ''first'', Stdout '''']\<rparr>"
  by (simp add: getNearest_eq getNearest_rows_def run_eq all_Record_def Let_def scripted_def
        fmt_Println_eq log_Println_eq records_def)

text \<open>
  C7, on the reference store. From every store state, \<open>createTable\<close> returns, and
  running it again right after returns too and leaves the store exactly as the first run
  left it: the other tables untouched, and exactly one table of the fixed name, with
  exactly one index, geospatial, on the designated field, and no documents (whatever the
  table held before is gone).
\<close>

theorem createTable_idempotent:
  fixes nearest :: nearest and s :: store and tr :: "event list"
  defines "fresh \<equiv> (tableName, \<lparr>indexes = [(indexName, \<lparr>Geo = True\<rparr>)], documents = []\<rparr>)"
  shows
  "\<exists>w1 w2.
     createTable (store_driver nearest) \<lparr>server = s, trace = tr\<rparr> = Returned w1
     \<and> createTable (store_driver nearest) w1 = Returned w2
     \<and> server w2 = server w1
     \<and> tables (server w1) = filter (\<lambda>nt. fst nt \<noteq> tableName) (tables s) @ [fresh]
     \<and> filter (\<lambda>nt. fst nt = tableName) (tables (server w1)) = [fresh]
     \<and> map_of (tables (server w1)) tableName = Some (snd fresh)"
  unfolding fresh_def
  by (simp add: store_createTable filter_same_other map_of_fresh del: map_of_append)

text \<open>
  A run of the schema setup on a store that already has the table, with another index
  and a document, next to a table of another name.
\<close>

lemma createTable_replaces_old_table:
  "createTable (store_driver nearest)
     \<lparr>server =
        \<lparr>tables = [(''geospatial'',
                     \<lparr>indexes = [(''old'', \<lparr>Geo = False\<rparr>)], documents = [(7, hd records)]\<rparr>),
                    (''users'', \<lparr>indexes = [], documents = []\<rparr>)],
         next_id = 8\<rparr>,
      trace = []\<rparr> =
   Returned
     \<lparr>server =
        \<lparr>tables = [(''users'', \<lparr>indexes = [], documents = []\<rparr>),
                    (''geospatial'',
                     \<lparr>indexes = [(''area'', \<lparr>Geo = True\<rparr>)], documents = []\<rparr>)],
         next_id = 8\<rparr>,
      trace = [Stdout ''create table and index'',
               Sent (TableDrop (DB DBName) tableName),
               Sent (TableCreate (DB DBName) tableName),
               Sent (IndexCreate (DB_Table (DB DBName) tableName) indexName \<lparr>Geo = True\<rparr>),
               Stdout '''']\<rparr>"
  by (simp add: store_createTable) (simp add: tableName_def indexName_def)


end
